theory Spec2Isabelle
  imports Complex_Main "HOL-Library.Multiset"
begin

section \<open>Python values\<close>

text \<open>
  The program is one Python module, \<^verbatim>\<open>playlistBuilder.py\<close>. Its functions are embedded
  as HOL functions of the same names. Conventions of the embedding:

  \<^item> a Python \<^verbatim>\<open>str\<close> is a HOL \<open>string\<close>, one \<open>char\<close> per code point; the model covers
    the texts whose code points are below 256, on which concatenation, slicing, truthiness
    and \<^verbatim>\<open>urllib.parse.quote\<close> are exactly the functions below;
  \<^item> a Python \<^verbatim>\<open>float\<close> is a real number: arithmetic is exact, rounding is left out;
  \<^item> \<^verbatim>\<open>None\<close> is \<open>None\<close> of an option type, every attribute that the constructors
    default to \<^verbatim>\<open>None\<close> has an option type;
  \<^item> an exception is the \<open>Inl\<close> branch of a sum type.
\<close>

datatype py_error = AttributeError | TypeError | ValueError | IndexError

text \<open>Running a fallible function over a list stops at the first exception.\<close>

fun map_res :: "('a \<Rightarrow> py_error + 'b) \<Rightarrow> 'a list \<Rightarrow> py_error + 'b list" where
  "map_res f [] = Inr []"
| "map_res f (x # xs) =
     (case f x of
        Inl e \<Rightarrow> Inl e
      | Inr y \<Rightarrow> (case map_res f xs of Inl e \<Rightarrow> Inl e | Inr ys \<Rightarrow> Inr (y # ys)))"

text \<open>
  \<^verbatim>\<open>xs[:k]\<close> for a Python \<^verbatim>\<open>int\<close> \<open>k\<close>: a negative \<open>k\<close> counts from the end, so the
  slice drops the last \<open>-k\<close> elements.
\<close>

definition slice_to :: "'a list \<Rightarrow> int \<Rightarrow> 'a list" where
  "slice_to xs k = (if 0 \<le> k then take (nat k) xs else take (length xs - nat (- k)) xs)"

text \<open>\<^verbatim>\<open>s[-4:]\<close>: the last four characters (the whole string when it is shorter).\<close>

definition last4 :: "string \<Rightarrow> string" where
  "last4 s = drop (length s - 4) s"

text \<open>\<^verbatim>\<open>sep.join(xs)\<close> on a list of strings.\<close>

fun join :: "string \<Rightarrow> string list \<Rightarrow> string" where
  "join sep [] = []"
| "join sep [x] = x"
| "join sep (x # y # ys) = x @ sep @ join sep (y # ys)"

text \<open>\<^verbatim>\<open>str(n)\<close> for an \<^verbatim>\<open>int\<close>: decimal digits, a minus sign when negative.\<close>

definition digit :: "nat \<Rightarrow> char" where
  "digit d = char_of (48 + d)"

fun digits :: "nat \<Rightarrow> string" where
  "digits n = (if n < 10 then [digit n] else digits (n div 10) @ [digit (n mod 10)])"

definition str_int :: "int \<Rightarrow> string" where
  "str_int i = (if i < 0 then CHR ''-'' # digits (nat (- i)) else digits (nat i))"

subsection \<open>urllib.parse.quote\<close>

text \<open>
  \<^verbatim>\<open>quote(s)\<close> with its default \<^verbatim>\<open>safe='/'\<close>: letters, digits and \<^verbatim>\<open>_.-~/\<close> are kept,
  every other character is encoded in UTF-8 and each byte written as \<^verbatim>\<open>%XX\<close> with
  upper-case hexadecimal digits. A code point below 128 is one byte, one from 128 to 255
  is two.
\<close>

definition always_safe :: "string" where
  "always_safe =
     ''ABCDEFGHIJKLMNOPQRSTUVWXYZabcdefghijklmnopqrstuvwxyz0123456789_.-~/''"

definition hex_digit :: "nat \<Rightarrow> char" where
  "hex_digit d = ''0123456789ABCDEF'' ! (d mod 16)"

definition percent :: "nat \<Rightarrow> string" where
  "percent b = [CHR ''%'', hex_digit (b div 16), hex_digit (b mod 16)]"

definition utf8 :: "char \<Rightarrow> nat list" where
  "utf8 c = (let n = (of_char c :: nat) in
     if n < 128 then [n] else [192 + n div 64, 128 + n mod 64])"

definition quote_char :: "char \<Rightarrow> string" where
  "quote_char c = (if c \<in> set always_safe then [c] else concat (map percent (utf8 c)))"

definition quote :: "string \<Rightarrow> string" where
  "quote s = concat (map quote_char s)"

section \<open>The data model\<close>

text \<open>
  \<^verbatim>\<open>TrackInfo.year\<close> is annotated \<^verbatim>\<open>int\<close>, and is an \<^verbatim>\<open>int\<close> when it comes from the
  caller's payload; the constructor and the catalog code store a slice of the release
  date in it, a \<^verbatim>\<open>str\<close>.
\<close>

datatype py_year = YearInt int | YearStr string

record TrackInfo =
  name :: "string option"
  artist :: "string option"
  album :: "string option"
  year :: "py_year option"
  id_info :: "string option"
  href :: "string option"

text \<open>
  \<^verbatim>\<open>TrackInfo.__init__\<close> (lines 13 to 21): a truthy \<^verbatim>\<open>releaseDate\<close> overrides
  \<^verbatim>\<open>year\<close>.
\<close>

definition TrackInfo_init ::
  "string option \<Rightarrow> string option \<Rightarrow> string option \<Rightarrow> py_year option \<Rightarrow> string option \<Rightarrow>
   string option \<Rightarrow> string option \<Rightarrow> TrackInfo" where
  "TrackInfo_init n a al y i h releaseDate =
     \<lparr>name = n, artist = a, album = al,
      year = (case releaseDate of
                None \<Rightarrow> y
              | Some d \<Rightarrow> if d = [] then y else Some (YearStr (last4 d))),
      id_info = i, href = h\<rparr>"

text \<open>
  Truthiness, as the conditional expressions of \<^verbatim>\<open>genQuery\<close> test it: \<^verbatim>\<open>None\<close>, the
  empty string and the integer 0 are false.
\<close>

definition truthy_str :: "string option \<Rightarrow> bool" where
  "truthy_str v = (case v of None \<Rightarrow> False | Some s \<Rightarrow> s \<noteq> [])"

definition truthy_year :: "py_year option \<Rightarrow> bool" where
  "truthy_year v =
     (case v of None \<Rightarrow> False | Some (YearInt n) \<Rightarrow> n \<noteq> 0 | Some (YearStr s) \<Rightarrow> s \<noteq> [])"

definition str_year :: "py_year \<Rightarrow> string" where
  "str_year y = (case y of YearInt n \<Rightarrow> str_int n | YearStr s \<Rightarrow> s)"

text \<open>
  \<^verbatim>\<open>TrackInfo.genQuery\<close> (lines 23 to 30). The list \<open>q\<close> holds the four optional
  tokens; the comprehension \<^verbatim>\<open>[x for x in q if x]\<close> keeps the truthy ones.
\<close>

definition genQuery :: "TrackInfo \<Rightarrow> string" where
  "genQuery self =
     (let qName = (case name self of
                     None \<Rightarrow> None
                   | Some s \<Rightarrow> if s \<noteq> [] then Some (''track:'' @ s) else None);
          qArtist = (case artist self of
                       None \<Rightarrow> None
                     | Some s \<Rightarrow> if s \<noteq> [] then Some (''artist:'' @ s) else None);
          qAlbum = (case album self of
                      None \<Rightarrow> None
                    | Some s \<Rightarrow> if s \<noteq> [] then Some (''album:'' @ s) else None);
          qYear = (case year self of
                     None \<Rightarrow> None
                   | Some y \<Rightarrow> if truthy_year (Some y) then Some (''year:'' @ str_year y) else None);
          q = [qName, qArtist, qAlbum, qYear]
      in quote (join '' '' (List.map_filter (\<lambda>x. if truthy_str x then x else None) q)))"


record AudioModel =
  acousticness :: "real option"
  danceability :: "real option"
  energy :: "real option"
  instrumentalness :: "real option"
  liveness :: "real option"
  speechiness :: "real option"
  valence :: "real option"
  loudness :: "real option"

text \<open>\<^verbatim>\<open>AudioModel.getNumpyVector\<close> (line 60): the eight attributes in this order.\<close>

definition getNumpyVector :: "AudioModel \<Rightarrow> real option list" where
  "getNumpyVector self =
     [acousticness self, danceability self, energy self, instrumentalness self,
      liveness self, speechiness self, valence self, loudness self]"

text \<open>
  \<^verbatim>\<open>AudioModel(*xs)\<close>: the constructor called with the elements of a list as positional
  arguments, in the order of its parameters. A parameter without an argument keeps its
  default \<^verbatim>\<open>None\<close>; more than eight arguments are a \<^verbatim>\<open>TypeError\<close>.
\<close>

definition positional :: "'a list \<Rightarrow> nat \<Rightarrow> 'a option" where
  "positional xs i = (if i < length xs then Some (xs ! i) else None)"

definition AudioModel_star :: "real list \<Rightarrow> py_error + AudioModel" where
  "AudioModel_star xs =
     (if 8 < length xs then Inl TypeError
      else Inr \<lparr>acousticness = positional xs 0, danceability = positional xs 1,
                energy = positional xs 2, instrumentalness = positional xs 3,
                liveness = positional xs 4, speechiness = positional xs 5,
                valence = positional xs 6, loudness = positional xs 7\<rparr>)"

text \<open>
  \<^verbatim>\<open>AudioFeatures\<close> (lines 32 to 46): the catalog's metadata, and the eight numeric
  descriptors gathered in \<open>model\<close>.
\<close>

record AudioFeatures =
  duration_ms :: "int option"
  key :: "int option"
  mode :: "int option"
  tempo :: "real option"
  time_signature :: "int option"
  url :: "string option"
  type_feat :: "string option"
  id_feat :: "string option"
  uri :: "string option"
  track_href :: "string option"
  analysis_url :: "string option"
  model :: AudioModel

text \<open>
  One record of the audio-features response, a JSON object: the keyword arguments of
  \<^verbatim>\<open>AudioFeatures(**feature)\<close>. A key that is missing leaves the parameter's default.
\<close>

record feature_json =
  j_acousticness :: "real option"
  j_danceability :: "real option"
  j_duration_ms :: "int option"
  j_energy :: "real option"
  j_instrumentalness :: "real option"
  j_key :: "int option"
  j_liveness :: "real option"
  j_loudness :: "real option"
  j_mode :: "int option"
  j_speechiness :: "real option"
  j_tempo :: "real option"
  j_time_signature :: "int option"
  j_valence :: "real option"
  j_type :: "string option"
  j_id :: "string option"
  j_uri :: "string option"
  j_track_href :: "string option"
  j_analysis_url :: "string option"

definition AudioFeatures_init :: "feature_json \<Rightarrow> AudioFeatures" where
  "AudioFeatures_init f =
     \<lparr>duration_ms = j_duration_ms f, key = j_key f, mode = j_mode f, tempo = j_tempo f,
      time_signature = j_time_signature f, url = None, type_feat = j_type f,
      id_feat = j_id f, uri = j_uri f, track_href = j_track_href f,
      analysis_url = j_analysis_url f,
      model = \<lparr>acousticness = j_acousticness f, danceability = j_danceability f,
               energy = j_energy f, instrumentalness = j_instrumentalness f,
               liveness = j_liveness f, speechiness = j_speechiness f,
               valence = j_valence f, loudness = j_loudness f\<rparr>\<rparr>"

record Track =
  audio_features :: "AudioFeatures option"
  track_info :: "TrackInfo option"

section \<open>The numpy operations\<close>

text \<open>
  \<^verbatim>\<open>np.matrix(rows)\<close> of a list of rows of equal length is the matrix of these rows;
  of the empty list it is the matrix of shape (1, 0): one row, no column. A matrix is the
  list of its rows here, so the empty list of rows becomes \<open>[[]]\<close>.
\<close>

definition np_matrix :: "'a list list \<Rightarrow> 'a list list" where
  "np_matrix rows = (if rows = [] then [[]] else rows)"

definition ncols :: "'a list list \<Rightarrow> nat" where
  "ncols mat = (case mat of [] \<Rightarrow> 0 | r # _ \<Rightarrow> length r)"

text \<open>
  An array that holds a \<^verbatim>\<open>None\<close> has dtype \<^verbatim>\<open>object\<close>, and arithmetic on it raises
  \<^verbatim>\<open>TypeError\<close> at the \<^verbatim>\<open>None\<close>. \<open>floats\<close> reads a column or row of numbers.
\<close>

definition floats :: "real option list \<Rightarrow> py_error + real list" where
  "floats xs = (case those xs of None \<Rightarrow> Inl TypeError | Some ys \<Rightarrow> Inr ys)"

text \<open>
  \<^verbatim>\<open>mat.mean(axis=0).tolist()[0]\<close>: the mean of every column, the sum of the column
  divided by the number of rows. The matrix of shape (1, 0) has no column and its list
  of means is empty.
\<close>

definition column :: "'a list list \<Rightarrow> nat \<Rightarrow> 'a list" where
  "column mat j = map (\<lambda>row. row ! j) mat"

definition column_mean :: "real option list list \<Rightarrow> nat \<Rightarrow> py_error + real" where
  "column_mean mat j =
     (case floats (column mat j) of
        Inl e \<Rightarrow> Inl e
      | Inr xs \<Rightarrow> Inr (sum_list xs / real (length mat)))"

definition mean_axis0 :: "real option list list \<Rightarrow> py_error + real list" where
  "mean_axis0 mat = map_res (column_mean mat) [0..<ncols mat]"

text \<open>
  \<^verbatim>\<open>mat - vec\<close> broadcasts the vector over the rows: the shapes (r, c) and (n,) must
  agree in \<open>c = n\<close> (or one of them be 1), else \<^verbatim>\<open>ValueError\<close>; the shapes are compared
  before any element is subtracted. The rows of this program have 8 entries, so the
  one mismatch that occurs is the matrix of shape (1, 0).
\<close>

definition broadcast_sub ::
  "real option list list \<Rightarrow> real option list \<Rightarrow> py_error + real list list" where
  "broadcast_sub mat vec =
     (if ncols mat \<noteq> length vec then Inl ValueError
      else case floats vec of
             Inl e \<Rightarrow> Inl e
           | Inr v \<Rightarrow> map_res (\<lambda>row. case floats row of
                                       Inl e \<Rightarrow> Inl e
                                     | Inr r \<Rightarrow> Inr (map2 (-) r v)) mat)"

text \<open>
  \<^verbatim>\<open>np.linalg.norm(m, axis=1)\<close>: the Euclidean norm of every row, the square root of the
  sum of the squares.
\<close>

definition norm_axis1 :: "real list list \<Rightarrow> real list" where
  "norm_axis1 m = map (\<lambda>row. sqrt (sum_list (map (\<lambda>x. x * x) row))) m"


text \<open>
  \<^verbatim>\<open>dist.argsort()\<close> is called with numpy's default \<^verbatim>\<open>kind\<close>, which numpy documents as
  \<^verbatim>\<open>quicksort\<close>, an introsort that is not stable. The sort is not code of this program,
  and which of the permutations that sort \<open>dist\<close> it returns depends on numpy's
  implementation; so it is a parameter \<open>argsort\<close> of the functions that call it, and
  \<open>is_argsort\<close> is what numpy promises of its result: the indices \<open>0..<n\<close>, each once,
  in an order in which the distances do not decrease.
\<close>

definition is_argsort :: "real list \<Rightarrow> nat list \<Rightarrow> bool" where
  "is_argsort ds idx =
     (sort idx = [0..<length ds] \<and> sorted (map (\<lambda>i. ds ! i) idx))"

text \<open>
  A stable sort of the indices (numpy's \<^verbatim>\<open>kind='stable'\<close>): indices of equal distance
  stay in increasing order.
\<close>

definition stable_argsort :: "real list \<Rightarrow> nat list" where
  "stable_argsort ds = sort_key (\<lambda>i. ds ! i) [0..<length ds]"


section \<open>The catalog\<close>

text \<open>
  A track object of a search or recommendation response, with the fields the program
  reads: \<^verbatim>\<open>name\<close>, the \<^verbatim>\<open>name\<close> of every entry of \<^verbatim>\<open>artists\<close>, \<^verbatim>\<open>album.name\<close>,
  \<^verbatim>\<open>album.release_date\<close>, \<^verbatim>\<open>id\<close> and \<^verbatim>\<open>href\<close>.
\<close>

record catalog_track =
  c_name :: string
  c_artists :: "string list"
  c_album :: string
  c_release_date :: string
  c_id :: string
  c_href :: string

text \<open>
  The remote service, as the responses it gives: to a search for a query (one result at
  most is asked for), to an audio-features request for a comma-separated list of ids
  (an entry of the response is a record or \<^verbatim>\<open>null\<close>), and to a recommendation request for
  seed ids, a limit and the eight targets. The cached session returns what the service
  returned, and the pause after a response that was not cached changes no value.
\<close>

record remote =
  search_api :: "string \<Rightarrow> catalog_track list"
  features_api :: "string \<Rightarrow> feature_json option list"
  recommendations_api :: "string \<Rightarrow> int \<Rightarrow> AudioModel \<Rightarrow> catalog_track list"

text \<open>
  The dictionary \<open>data\<close> and \<^verbatim>\<open>Track(track_info=TrackInfo(**data))\<close>, as \<^verbatim>\<open>searchTrack\<close>
  and \<^verbatim>\<open>getModelRecommendations\<close> both write them. \<^verbatim>\<open>track["artists"][0]\<close> raises
  \<^verbatim>\<open>IndexError\<close> on an empty list of artists.
\<close>

definition catalog_Track :: "catalog_track \<Rightarrow> py_error + Track" where
  "catalog_Track t =
     (case c_artists t of
        [] \<Rightarrow> Inl IndexError
      | a # _ \<Rightarrow>
          Inr \<lparr>audio_features = None,
               track_info = Some (TrackInfo_init (Some (c_name t)) (Some a) (Some (c_album t))
                 (Some (YearStr (take 4 (c_release_date t)))) (Some (c_id t)) (Some (c_href t))
                 None)\<rparr>)"

text \<open>\<^verbatim>\<open>track.track_info.id\<close>; \<^verbatim>\<open>AttributeError\<close> when \<^verbatim>\<open>track_info\<close> is \<^verbatim>\<open>None\<close>.\<close>

definition track_id :: "Track \<Rightarrow> py_error + string option" where
  "track_id t = (case track_info t of None \<Rightarrow> Inl AttributeError | Some ti \<Rightarrow> Inr (id_info ti))"

text \<open>\<^verbatim>\<open>",".join(ids)\<close>; \<^verbatim>\<open>TypeError\<close> when an id is \<^verbatim>\<open>None\<close>.\<close>

definition join_ids :: "string option list \<Rightarrow> py_error + string" where
  "join_ids ids = (case those ids of None \<Rightarrow> Inl TypeError | Some ss \<Rightarrow> Inr (join '','' ss))"

section \<open>PlaylistBuilder\<close>

text \<open>
  \<^verbatim>\<open>searchTrack\<close> (lines 94 to 116): \<^verbatim>\<open>None\<close> when the response has no item, else a
  new \<^verbatim>\<open>Track\<close> made of the first item.
\<close>

definition searchTrack :: "(string \<Rightarrow> catalog_track list) \<Rightarrow> Track \<Rightarrow> py_error + Track option" where
  "searchTrack search track =
     (case track_info track of
        None \<Rightarrow> Inl AttributeError
      | Some ti \<Rightarrow>
          (let q = genQuery ti; items = search q
           in if length items = 0 then Inr None
              else case catalog_Track (items ! 0) of
                     Inl e \<Rightarrow> Inl e
                   | Inr t \<Rightarrow> Inr (Some t)))"

text \<open>
  \<^verbatim>\<open>getAudioFeatures\<close> (lines 118 to 131) assigns to an attribute of the objects in
  its argument, and an object may stand at several positions of the list. So the list is a list of addresses
  and the objects are in a store; the function returns the list it was given and the
  new store. The loop runs over \<^verbatim>\<open>zip(tracks, features)\<close>, which ends with the shorter
  list; \<^verbatim>\<open>AudioFeatures(**feature)\<close> raises \<^verbatim>\<open>TypeError\<close> when the entry is \<^verbatim>\<open>null\<close>.
\<close>

type_synonym store = "nat \<Rightarrow> Track"

fun assign_features :: "(nat \<times> feature_json option) list \<Rightarrow> store \<Rightarrow> py_error + store" where
  "assign_features [] h = Inr h"
| "assign_features ((r, feature) # rest) h =
     (case feature of
        None \<Rightarrow> Inl TypeError
      | Some f \<Rightarrow>
          assign_features rest (h(r := (h r)\<lparr>audio_features := Some (AudioFeatures_init f)\<rparr>)))"

definition getAudioFeatures ::
  "(string \<Rightarrow> feature_json option list) \<Rightarrow> nat list \<Rightarrow> store \<Rightarrow> py_error + nat list \<times> store" where
  "getAudioFeatures request tracks h =
     (case map_res (\<lambda>r. track_id (h r)) tracks of
        Inl e \<Rightarrow> Inl e
      | Inr ids \<Rightarrow>
          (case join_ids ids of
             Inl e \<Rightarrow> Inl e
           | Inr joined \<Rightarrow>
               (let features = request joined
                in case assign_features (zip tracks features) h of
                     Inl e \<Rightarrow> Inl e
                   | Inr h' \<Rightarrow> Inr (tracks, h'))))"

text \<open>
  \<^verbatim>\<open>track.audio_features.model.getNumpyVector()\<close>, the row of a track in the matrices
  of \<^verbatim>\<open>genAverageModel\<close> (lines 133 to 136) and \<^verbatim>\<open>getBestSeeds\<close> (lines 138 to 144).
\<close>

definition feature_vector :: "Track \<Rightarrow> py_error + real option list" where
  "feature_vector t =
     (case audio_features t of
        None \<Rightarrow> Inl AttributeError
      | Some af \<Rightarrow> Inr (getNumpyVector (model af)))"

definition genAverageModel :: "Track list \<Rightarrow> py_error + AudioModel" where
  "genAverageModel tracks =
     (case map_res feature_vector tracks of
        Inl e \<Rightarrow> Inl e
      | Inr rows \<Rightarrow>
          (case mean_axis0 (np_matrix rows) of
             Inl e \<Rightarrow> Inl e
           | Inr means \<Rightarrow> AudioModel_star means))"

text \<open>The array \<^verbatim>\<open>dist\<close> of \<^verbatim>\<open>getBestSeeds\<close>.\<close>

definition distances :: "Track list \<Rightarrow> AudioModel \<Rightarrow> py_error + real list" where
  "distances tracks m =
     (case map_res feature_vector tracks of
        Inl e \<Rightarrow> Inl e
      | Inr rows \<Rightarrow>
          (case broadcast_sub (np_matrix rows) (getNumpyVector m) of
             Inl e \<Rightarrow> Inl e
           | Inr diff \<Rightarrow> Inr (norm_axis1 diff)))"

text \<open>\<^verbatim>\<open>tracks[i]\<close> for an index that numpy returned (never negative).\<close>

definition subscript :: "'a list \<Rightarrow> nat \<Rightarrow> py_error + 'a" where
  "subscript xs i = (if i < length xs then Inr (xs ! i) else Inl IndexError)"

definition getBestSeeds ::
  "(real list \<Rightarrow> nat list) \<Rightarrow> Track list \<Rightarrow> AudioModel \<Rightarrow> int \<Rightarrow> py_error + Track list" where
  "getBestSeeds argsort tracks m limit =
     (case distances tracks m of
        Inl e \<Rightarrow> Inl e
      | Inr ds \<Rightarrow> map_res (subscript tracks) (slice_to (argsort ds) limit))"

text \<open>
  \<^verbatim>\<open>getModelRecommendations\<close> (lines 146 to 189); with and without the cache the
  request is the same.
\<close>

definition getModelRecommendations ::
  "(string \<Rightarrow> int \<Rightarrow> AudioModel \<Rightarrow> catalog_track list) \<Rightarrow> AudioModel \<Rightarrow> Track list \<Rightarrow> int \<Rightarrow>
   py_error + Track list" where
  "getModelRecommendations request m seed_tracks limit =
     (case map_res track_id seed_tracks of
        Inl e \<Rightarrow> Inl e
      | Inr ids \<Rightarrow>
          (case join_ids ids of
             Inl e \<Rightarrow> Inl e
           | Inr joined \<Rightarrow> map_res catalog_Track (request joined limit m)))"


subsection \<open>run\<close>

text \<open>
  \<^verbatim>\<open>run\<close> is lines 75 to 87. The comprehension that removes duplicates (line 83): for every recommended track, its id, then
  the list of the ids of \<open>tracks\<close>, built again for every recommended track, then the
  test \<^verbatim>\<open>not in\<close>, which compares with \<^verbatim>\<open>==\<close> (two absent ids are equal).
\<close>

fun filter_res :: "('a \<Rightarrow> py_error + bool) \<Rightarrow> 'a list \<Rightarrow> py_error + 'a list" where
  "filter_res p [] = Inr []"
| "filter_res p (x # xs) =
     (case p x of
        Inl e \<Rightarrow> Inl e
      | Inr b \<Rightarrow>
          (case filter_res p xs of
             Inl e \<Rightarrow> Inl e
           | Inr ys \<Rightarrow> Inr (if b then x # ys else ys)))"

definition remove_duplicates :: "Track list \<Rightarrow> Track list \<Rightarrow> py_error + Track list" where
  "remove_duplicates recommendedSongs tracks =
     filter_res (\<lambda>track. case track_id track of
                           Inl e \<Rightarrow> Inl e
                         | Inr i \<Rightarrow>
                             (case map_res track_id tracks of
                                Inl e \<Rightarrow> Inl e
                              | Inr ids \<Rightarrow> Inr (i \<notin> set ids)))
       recommendedSongs"

text \<open>
  \<^verbatim>\<open>if len(recommendedSongs) > limit: recommendedSongs = recommendedSongs[:limit]\<close>
\<close>

definition cap :: "'a list \<Rightarrow> int \<Rightarrow> 'a list" where
  "cap recommendedSongs limit =
     (if int (length recommendedSongs) > limit then slice_to recommendedSongs limit
      else recommendedSongs)"

text \<open>
  The tracks that \<^verbatim>\<open>searchTrack\<close> returns are new objects; \<open>allocate\<close> puts them in a
  store at the addresses \<open>0, 1, ...\<close>.
\<close>

definition allocate :: "Track list \<Rightarrow> nat list \<times> store" where
  "allocate ts =
     ([0..<length ts],
      (\<lambda>a. if a < length ts then ts ! a else \<lparr>audio_features = None, track_info = None\<rparr>))"

text \<open>
  The first three statements of \<^verbatim>\<open>run\<close>: search every input track, keep the tracks
  that were found (a \<^verbatim>\<open>Track\<close> is truthy, \<^verbatim>\<open>None\<close> is not), fetch their features. The
  result is the list \<open>tracks\<close> that the rest of \<^verbatim>\<open>run\<close> reads, the enriched input.
\<close>

definition enrich :: "remote \<Rightarrow> Track list \<Rightarrow> py_error + Track list" where
  "enrich api inputs =
     (case map_res (searchTrack (search_api api)) inputs of
        Inl e \<Rightarrow> Inl e
      | Inr found \<Rightarrow>
          (case allocate (List.map_filter (\<lambda>t. t) found) of
             (refs, h) \<Rightarrow>
               (case getAudioFeatures (features_api api) refs h of
                  Inl e \<Rightarrow> Inl e
                | Inr (refs', h') \<Rightarrow> Inr (map h' refs'))))"

definition run :: "remote \<Rightarrow> (real list \<Rightarrow> nat list) \<Rightarrow> Track list \<Rightarrow> int \<Rightarrow> py_error + Track list" where
  "run api argsort inputs limit =
     (case enrich api inputs of
        Inl e \<Rightarrow> Inl e
      | Inr tracks \<Rightarrow>
          (case genAverageModel tracks of
             Inl e \<Rightarrow> Inl e
           | Inr m \<Rightarrow>
               (case getBestSeeds argsort tracks m 5 of
                  Inl e \<Rightarrow> Inl e
                | Inr seeds \<Rightarrow>
                    (case getModelRecommendations (recommendations_api api) m seeds limit of
                       Inl e \<Rightarrow> Inl e
                     | Inr recommendedSongs \<Rightarrow>
                         (case remove_duplicates recommendedSongs tracks of
                            Inl e \<Rightarrow> Inl e
                          | Inr deduplicated \<Rightarrow> Inr (cap deduplicated limit))))))"


section \<open>Notions of the specification\<close>



text \<open>
  One dimension of the feature vector that a track carries, and the vector of the eight
  dimensions in their fixed order.
\<close>

definition dimension :: "(AudioModel \<Rightarrow> real option) \<Rightarrow> Track \<Rightarrow> real option" where
  "dimension f t = (case audio_features t of None \<Rightarrow> None | Some af \<Rightarrow> f (model af))"

definition dimensions :: "Track \<Rightarrow> real option list" where
  "dimensions t = [dimension acousticness t, dimension danceability t, dimension energy t,
     dimension instrumentalness t, dimension liveness t, dimension speechiness t,
     dimension valence t, dimension loudness t]"

text \<open>The Euclidean distance of two vectors, and the distances of a list of vectors to a target.\<close>

definition euclidean :: "real list \<Rightarrow> real list \<Rightarrow> real" where
  "euclidean x y = sqrt (\<Sum>(a, b)\<leftarrow>zip x y. (a - b)\<^sup>2)"

definition target_distances :: "real list list \<Rightarrow> real list \<Rightarrow> real list" where
  "target_distances xs y = map (\<lambda>x. euclidean x y) xs"


section \<open>Example inputs\<close>

text \<open>A feature vector that is zero except in its first two dimensions.\<close>

definition point :: "real \<Rightarrow> real \<Rightarrow> AudioModel" where
  "point a d = \<lparr>acousticness = Some a, danceability = Some d, energy = Some 0,
     instrumentalness = Some 0, liveness = Some 0, speechiness = Some 0, valence = Some 0,
     loudness = Some 0\<rparr>"

text \<open>A track of the catalog with its id and its feature vector.\<close>

definition example_track :: "string \<Rightarrow> AudioModel \<Rightarrow> Track" where
  "example_track i m =
     \<lparr>audio_features = Some \<lparr>duration_ms = None, key = None, mode = None, tempo = None,
        time_signature = None, url = None, type_feat = None, id_feat = Some i, uri = None,
        track_href = None, analysis_url = None, model = m\<rparr>,
      track_info = Some (TrackInfo_init None None None None (Some i) None None)\<rparr>"

text \<open>
  A catalog that knows the tracks \<open>a\<close> and \<open>b\<close>: a search for the name \<open>A\<close> or \<open>B\<close> finds
  them, their feature vectors differ in the first dimension, and every recommendation
  request is answered with seven tracks, two of which are \<open>a\<close> and \<open>b\<close>.
\<close>

definition example_item :: "string \<Rightarrow> catalog_track" where
  "example_item i = \<lparr>c_name = ''Song '' @ i, c_artists = [''Band'', ''Guest''],
     c_album = ''Album'', c_release_date = ''1999-01-02'', c_id = i,
     c_href = ''https://api/'' @ i\<rparr>"

definition example_feature :: "string \<Rightarrow> real \<Rightarrow> feature_json" where
  "example_feature i a = \<lparr>j_acousticness = Some a, j_danceability = Some (1 / 4),
     j_duration_ms = Some 1000, j_energy = Some 1, j_instrumentalness = Some 0,
     j_key = Some 5, j_liveness = Some 0, j_loudness = Some (- 6), j_mode = Some 1,
     j_speechiness = Some 0, j_tempo = Some 120, j_time_signature = Some 4,
     j_valence = Some 1, j_type = Some ''audio_features'', j_id = Some i, j_uri = None,
     j_track_href = None, j_analysis_url = None\<rparr>"

definition example_remote :: remote where
  "example_remote =
     \<lparr>search_api = (\<lambda>q. if q = ''track%3AA'' then [example_item ''a'']
                          else if q = ''track%3AB'' then [example_item ''b''] else []),
      features_api = (\<lambda>ids. if ids = ''a,b''
                            then [Some (example_feature ''a'' 0), Some (example_feature ''b'' 1)]
                            else []),
      recommendations_api = (\<lambda>seeds limit m.
         [example_item ''r1'', example_item ''a'', example_item ''r2'', example_item ''r3'',
          example_item ''b'', example_item ''r4'', example_item ''r5''])\<rparr>"

text \<open>A track of the caller's payload, with a name only.\<close>

definition named :: "string \<Rightarrow> Track" where
  "named n = \<lparr>audio_features = None,
     track_info = Some (TrackInfo_init (Some n) None None None None None None)\<rparr>"

text \<open>The track that the program makes of \<open>example_item i\<close>, and the same with features.\<close>

definition catalogued :: "string \<Rightarrow> Track" where
  "catalogued i = \<lparr>audio_features = None,
     track_info = Some \<lparr>name = Some (''Song '' @ i), artist = Some ''Band'',
       album = Some ''Album'', year = Some (YearStr ''1999''), id_info = Some i,
       href = Some (''https://api/'' @ i)\<rparr>\<rparr>"

definition enriched :: "string \<Rightarrow> real \<Rightarrow> Track" where
  "enriched i a = (catalogued i)\<lparr>audio_features := Some (AudioFeatures_init (example_feature i a))\<rparr>"

text \<open>
  A store with the objects \<open>a\<close> and \<open>b\<close> at the addresses 0 and 1, and a service that
  answers the request for their features with one record only.
\<close>

definition example_store :: store where
  "example_store = snd (allocate [catalogued ''a'', catalogued ''b''])"

definition short_response :: "string \<Rightarrow> feature_json option list" where
  "short_response ids = (if ids = ''a,b'' then [Some (example_feature ''a'' 0)] else [])"

section \<open>Auxiliary facts\<close>

lemma map_res_Inr: "(\<And>x. x \<in> set xs \<Longrightarrow> f x = Inr (g x)) \<Longrightarrow> map_res f xs = Inr (map g xs)"
  by (induction xs) auto

lemma those_map_Some: "those (map Some xs) = Some xs"
  by (induction xs) auto

lemma floats_map_Some: "floats (map Some xs) = Inr xs"
  by (simp add: floats_def those_map_Some)

lemma upt_8: "[0..<8] = [0, 1, 2, 3, 4, 5, 6, 7::nat]"
  by (simp add: upt_rec)

lemma slice_to_take:
  "slice_to p limit = take (if 0 \<le> limit then nat limit else length p - nat (- limit)) p"
  by (simp add: slice_to_def)

lemma dimension_example: "dimension f (example_track i m) = f m"
  by (simp add: dimension_def example_track_def)

lemma dimensions_example:
  "dimensions (example_track i (point a d)) = map Some [a, d, 0, 0, 0, 0, 0, 0]"
  by (simp add: dimensions_def dimension_example point_def)

lemma vector_point: "getNumpyVector (point a d) = map Some [a, d, 0, 0, 0, 0, 0, 0]"
  by (simp add: getNumpyVector_def point_def)

section \<open>The search query\<close>




text \<open>
  C8. For a track identity in which name, artist, album and year are all absent,
  \<open>genQuery\<close> returns the empty string; it has no failing branch.
\<close>

theorem genQuery_no_fields:
  "genQuery \<lparr>name = None, artist = None, album = None, year = None, id_info = i, href = h\<rparr> = ''''"
  by (simp add: genQuery_def quote_def List.map_filter_simps truthy_str_def)

section \<open>Averaging\<close>

lemma feature_vector_dimensions:
  "dimension f t = Some x \<Longrightarrow> feature_vector t = Inr (dimensions t)"
  by (auto simp: dimension_def feature_vector_def dimensions_def getNumpyVector_def
      split: option.splits)






section \<open>Seed selection\<close>

subsection \<open>The distances\<close>

lemma feature_vector_row:
  assumes "dimensions t = map Some x"
  shows "feature_vector t = Inr (map Some x)"
proof -
  from assms obtain a where "dimension acousticness t = Some a"
    by (cases x) (auto simp: dimensions_def)
  then show ?thesis
    using assms by (simp add: feature_vector_dimensions)
qed

lemma rows_of_vectors:
  assumes "map dimensions tracks = map (map Some) xs"
  shows "map_res feature_vector tracks = Inr (map (map Some) xs)"
proof -
  have "map_res feature_vector tracks = Inr (map dimensions tracks)"
  proof (rule map_res_Inr)
    fix t assume "t \<in> set tracks"
    then obtain k where k: "k < length tracks" "t = tracks ! k"
      by (auto simp: in_set_conv_nth)
    from assms have "length xs = length tracks"
      by (metis length_map)
    with assms k have "dimensions t = map Some (xs ! k)"
      by (metis nth_map)
    then show "feature_vector t = Inr (dimensions t)"
      by (simp add: feature_vector_row)
  qed
  with assms show ?thesis by simp
qed

lemma norm_axis1_sub: "norm_axis1 (map (\<lambda>x. map2 (-) x y) xs) = target_distances xs y"
  by (simp add: norm_axis1_def target_distances_def euclidean_def power2_eq_square comp_def
      case_prod_unfold)

lemma length_target_distances:
  "map dimensions tracks = map (map Some) xs \<Longrightarrow> length (target_distances xs y) = length tracks"
  by (simp add: target_distances_def) (metis length_map)

text \<open>
  For a non-empty list of tracks that carry the vectors \<open>xs\<close>, and a target with the
  vector \<open>y\<close>, the array \<^verbatim>\<open>dist\<close> holds the Euclidean distances of the vectors to the
  target.
\<close>

lemma distances_vectors:
  assumes ne: "tracks \<noteq> []"
    and rows: "map dimensions tracks = map (map Some) xs"
    and tgt: "getNumpyVector m = map Some y"
  shows "distances tracks m = Inr (target_distances xs y)"
proof -
  from rows have len: "length xs = length tracks"
    by (metis length_map)
  with ne obtain x xs' where xs: "xs = x # xs'"
    by (cases xs) auto
  from ne obtain t ts where ts: "tracks = t # ts"
    by (cases tracks) auto
  from rows xs ts have "dimensions t = map Some x"
    by simp
  then have "length (map Some x) = length (dimensions t)"
    by simp
  then have "length x = 8"
    by (simp add: dimensions_def)
  moreover from tgt have "length (map Some y) = length (getNumpyVector m)"
    by simp
  then have "length y = 8"
    by (simp add: getNumpyVector_def)
  ultimately have cols: "ncols (np_matrix (map (map Some) xs)) = length (map Some y)"
    by (simp add: xs np_matrix_def ncols_def)
  have sub: "map_res (\<lambda>row. case floats row of Inl e \<Rightarrow> Inl e | Inr r \<Rightarrow> Inr (map2 (-) r y))
      (map (map Some) xs) = Inr (map (\<lambda>x. map2 (-) x y) xs)"
    by (induction xs) (simp_all add: floats_map_Some)
  have "broadcast_sub (np_matrix (map (map Some) xs)) (map Some y) =
      Inr (map (\<lambda>x. map2 (-) x y) xs)"
    using cols sub unfolding broadcast_sub_def
    by (simp add: floats_map_Some np_matrix_def xs)
  then show ?thesis
    by (simp add: distances_def rows_of_vectors [OF rows] tgt norm_axis1_sub)
qed


subsection \<open>The sorted indices\<close>

lemma is_argsort_mset: "is_argsort ds p \<Longrightarrow> mset p = mset [0..<length ds]"
  by (metis is_argsort_def mset_sort)

lemma is_argsort_props:
  assumes "is_argsort ds p"
  shows "distinct p" "set p = {0..<length ds}" "length p = length ds"
    "sorted (map (\<lambda>i. ds ! i) p)"
proof -
  have m: "mset p = mset [0..<length ds]"
    using assms by (rule is_argsort_mset)
  show "distinct p"
    using m by (metis distinct_upt mset_eq_imp_distinct_iff)
  show "set p = {0..<length ds}"
    using m by (metis mset_eq_setD set_upt)
  show "length p = length ds"
    using m by (metis mset_eq_length length_upt diff_zero)
  show "sorted (map (\<lambda>i. ds ! i) p)"
    using assms by (simp add: is_argsort_def)
qed

lemma map_res_subscript:
  "set idx \<subseteq> {0..<length tracks} \<Longrightarrow> map_res (subscript tracks) idx = Inr (map ((!) tracks) idx)"
  by (rule map_res_Inr) (auto simp: subscript_def)


text \<open>The seeds are the tracks at the first indices of the sorted permutation.\<close>

lemma getBestSeeds_indices:
  assumes ne: "tracks \<noteq> []"
    and rows: "map dimensions tracks = map (map Some) xs"
    and tgt: "getNumpyVector m = map Some y"
    and sub: "set (argsort (target_distances xs y)) \<subseteq> {0..<length tracks}"
  shows "getBestSeeds argsort tracks m limit =
     Inr (map ((!) tracks) (slice_to (argsort (target_distances xs y)) limit))"
proof -
  have "set (slice_to (argsort (target_distances xs y)) limit) \<subseteq> {0..<length tracks}"
    using sub set_take_subset by (fastforce simp: slice_to_take)
  then show ?thesis
    using distances_vectors [OF ne rows tgt] by (simp add: getBestSeeds_def map_res_subscript)
qed

subsection \<open>A stable sort of the indices\<close>




lemma stable_argsort_is_argsort: "is_argsort ds (stable_argsort ds)"
proof -
  have "sort (stable_argsort ds) = sort [0..<length ds]"
    by (rule properties_for_sort) (simp_all add: stable_argsort_def)
  then show ?thesis
    by (simp add: is_argsort_def stable_argsort_def sort_upt)
qed

subsection \<open>Example values\<close>

lemma example_distances:
  "target_distances [[3, 0, 0, 0, 0, 0, 0, 0], [0, 0, 0, 0, 0, 0, 0, 0], [1, 0, 0, 0, 0, 0, 0, 0]]
     [0, 0, 0, 0, 0, 0, 0, 0] = [3, 0, 1]"
  by (simp add: target_distances_def euclidean_def)


lemma stable_argsort_example: "stable_argsort [3, 0, 1] = [1, 2, 0]"
  by (simp add: stable_argsort_def upt_rec)



lemma distances_example:
  "distances [example_track i (point a d), example_track i' (point a' d'),
     example_track i'' (point a'' d'')] (point 0 0) =
   Inr [sqrt (a * a + d * d), sqrt (a' * a' + d' * d'), sqrt (a'' * a'' + d'' * d'')]"
  by (simp add: distances_def feature_vector_def example_track_def point_def getNumpyVector_def
      np_matrix_def broadcast_sub_def ncols_def floats_def norm_axis1_def)

subsection \<open>The claims on seed selection\<close>




text \<open>
  C10, as amended. For every non-empty list of tracks that carry feature vectors, every
  target vector and every limit, when numpy's sort returns a permutation \<open>p\<close> of the
  indices that sorts the distances, \<open>getBestSeeds\<close> returns the tracks at the indices
  \<open>idx\<close>, a slice of \<open>p\<close>: every input position occurs in \<open>p\<close> once, \<open>idx\<close> has no index
  twice and only positions of the input, and its length is the minimum of the limit
  and the input length for a limit that is not negative, and the input length less
  \<open>-limit\<close> (not below zero) for a negative one.
\<close>

theorem getBestSeeds_selection:
  assumes ne: "tracks \<noteq> []"
    and rows: "map dimensions tracks = map (map Some) xs"
    and tgt: "getNumpyVector m = map Some y"
    and srt: "is_argsort (target_distances xs y) (argsort (target_distances xs y))"
  shows "let p = argsort (target_distances xs y); idx = slice_to p limit
         in getBestSeeds argsort tracks m limit = Inr (map ((!) tracks) idx) \<and>
            mset p = mset [0..<length tracks] \<and>
            distinct idx \<and> set idx \<subseteq> {0..<length tracks} \<and>
            length idx = (if 0 \<le> limit then min (nat limit) (length tracks)
                          else length tracks - nat (- limit))"
proof -
  define ds where "ds = target_distances xs y"
  define p where "p = argsort ds"
  define k where "k = (if 0 \<le> limit then nat limit else length p - nat (- limit))"
  define idx where "idx = slice_to p limit"
  have idx: "idx = take k p"
    by (simp add: idx_def k_def slice_to_take)
  have len: "length ds = length tracks"
    using rows by (simp add: ds_def length_target_distances)
  have p: "distinct p" "set p = {0..<length tracks}" "length p = length tracks"
    using is_argsort_props [of ds p] srt len by (simp_all add: ds_def p_def)
  have m: "mset p = mset [0..<length tracks]"
    using is_argsort_mset [of ds p] srt len by (simp add: ds_def p_def)
  have sub: "set idx \<subseteq> {0..<length tracks}"
    using p(2) set_take_subset [of k p] by (simp add: idx)
  have 1: "getBestSeeds argsort tracks m limit = Inr (map ((!) tracks) idx)"
    using getBestSeeds_indices [OF ne rows tgt] p(2) by (simp add: ds_def idx_def p_def)
  have 2: "distinct idx"
    using p(1) by (simp add: idx)
  have 3: "length idx = (if 0 \<le> limit then min (nat limit) (length tracks)
                          else length tracks - nat (- limit))"
    using p(3) by (auto simp: idx k_def)
  show ?thesis
    using 1 2 3 m sub by (simp add: Let_def ds_def [symmetric] p_def [symmetric] idx_def [symmetric])
qed

theorem getBestSeeds_selection_witness:
  "[example_track ''a'' (point 3 0), example_track ''b'' (point 0 0),
      example_track ''c'' (point 1 0)] \<noteq> [] \<and>
   is_argsort [3, 0, 1] (stable_argsort [3, 0, 1]) \<and>
   getBestSeeds stable_argsort
     [example_track ''a'' (point 3 0), example_track ''b'' (point 0 0),
      example_track ''c'' (point 1 0)] (point 0 0) 5 =
     Inr [example_track ''b'' (point 0 0), example_track ''c'' (point 1 0),
          example_track ''a'' (point 3 0)] \<and>
   length (slice_to (stable_argsort [3, 0, 1]) 5) = min (nat 5) 3"
proof -
  let ?tracks = "[example_track ''a'' (point 3 0), example_track ''b'' (point 0 0),
      example_track ''c'' (point 1 0)]"
  let ?xs = "[[3, 0, 0, 0, 0, 0, 0, 0], [0, 0, 0, 0, 0, 0, 0, 0], [1, 0, 0, 0, 0, 0, 0, 0::real]]"
  let ?y = "[0, 0, 0, 0, 0, 0, 0, 0::real]"
  have 1: "?tracks \<noteq> []"
    by simp
  have 2: "map dimensions ?tracks = map (map Some) ?xs"
    by (simp add: dimensions_example)
  have 3: "getNumpyVector (point 0 0) = map Some ?y"
    by (simp add: vector_point)
  have 4: "is_argsort (target_distances ?xs ?y) (stable_argsort (target_distances ?xs ?y))"
    by (rule stable_argsort_is_argsort)
  have "getBestSeeds stable_argsort ?tracks (point 0 0) 5 =
      Inr [example_track ''b'' (point 0 0), example_track ''c'' (point 1 0),
           example_track ''a'' (point 3 0)] \<and>
    length (slice_to (stable_argsort [3, 0, 1]) 5) = min (nat 5) 3"
    using getBestSeeds_selection [where argsort = stable_argsort and limit = 5, OF 1 2 3 4]
    by (simp add: example_distances stable_argsort_example slice_to_def Let_def)
  with 1 4 show ?thesis
    by (simp only: example_distances) blast
qed

theorem getBestSeeds_negative_limit_length:
  "getBestSeeds stable_argsort
     [example_track ''a'' (point 3 0), example_track ''b'' (point 0 0),
      example_track ''c'' (point 1 0)] (point 0 0) (- 2) =
     Inr [example_track ''b'' (point 0 0)] \<and>
   int (length [example_track ''b'' (point 0 0)]) \<noteq>
     min (- 2) (int (length [example_track ''a'' (point 3 0), example_track ''b'' (point 0 0),
      example_track ''c'' (point 1 0)]))"
  by (simp add: getBestSeeds_def distances_example stable_argsort_example slice_to_def
      subscript_def)




section \<open>The example catalog\<close>

lemma example_query:
  "c \<in> set always_safe \<Longrightarrow>
   genQuery \<lparr>name = Some [c], artist = None, album = None, year = None, id_info = None,
     href = None\<rparr> = ''track%3A'' @ [c]"
  by (simp add: genQuery_def List.map_filter_simps truthy_str_def quote_def quote_char_def
      percent_def utf8_def hex_digit_def) (simp add: always_safe_def)

lemma example_search:
  "searchTrack (search_api example_remote) (named ''A'') = Inr (Some (catalogued ''a''))"
  "searchTrack (search_api example_remote) (named ''B'') = Inr (Some (catalogued ''b''))"
  "searchTrack (search_api example_remote) (named ''C'') = Inr None"
  by (simp_all add: searchTrack_def named_def TrackInfo_init_def example_query
      always_safe_def example_remote_def example_item_def catalog_Track_def catalogued_def)

lemma example_features:
  "features_api example_remote ''a,b'' =
     [Some (example_feature ''a'' 0), Some (example_feature ''b'' 1)]"
  by (simp add: example_remote_def)

lemma example_enrich:
  "enrich example_remote [named ''A'', named ''C'', named ''B''] =
     Inr [enriched ''a'' 0, enriched ''b'' 1]"
  by (simp add: enrich_def example_search List.map_filter_simps allocate_def
      getAudioFeatures_def track_id_def catalogued_def join_ids_def example_features
      enriched_def)

lemma example_average:
  "genAverageModel [enriched ''a'' 0, enriched ''b'' 1] =
     Inr (model (AudioFeatures_init (example_feature ''m'' (1 / 2))))"
  by (simp add: genAverageModel_def feature_vector_def np_matrix_def mean_axis0_def ncols_def
      getNumpyVector_def upt_8 column_mean_def column_def floats_def AudioModel_star_def
      positional_def AudioFeatures_init_def example_feature_def enriched_def)

lemma example_seed_distances:
  "distances [enriched ''a'' 0, enriched ''b'' 1]
     (model (AudioFeatures_init (example_feature ''m'' (1 / 2)))) = Inr [1 / 2, 1 / 2]"
  by (simp add: distances_def feature_vector_def np_matrix_def broadcast_sub_def ncols_def
      getNumpyVector_def floats_def norm_axis1_def AudioFeatures_init_def example_feature_def
      enriched_def real_sqrt_divide)

lemma example_seeds:
  "getBestSeeds stable_argsort [enriched ''a'' 0, enriched ''b'' 1]
     (model (AudioFeatures_init (example_feature ''m'' (1 / 2)))) 5 =
   Inr [enriched ''a'' 0, enriched ''b'' 1]"
  by (simp add: getBestSeeds_def example_seed_distances stable_argsort_def slice_to_def
      subscript_def upt_rec)

lemma example_recommendations:
  "getModelRecommendations (recommendations_api example_remote) m
     [enriched ''a'' 0, enriched ''b'' 1] limit =
   Inr [catalogued ''r1'', catalogued ''a'', catalogued ''r2'', catalogued ''r3'',
        catalogued ''b'', catalogued ''r4'', catalogued ''r5'']"
  by (simp add: getModelRecommendations_def track_id_def enriched_def catalogued_def
      join_ids_def example_remote_def example_item_def catalog_Track_def TrackInfo_init_def)

lemma example_deduplicated:
  "remove_duplicates
     [catalogued ''r1'', catalogued ''a'', catalogued ''r2'', catalogued ''r3'',
      catalogued ''b'', catalogued ''r4'', catalogued ''r5'']
     [enriched ''a'' 0, enriched ''b'' 1] =
   Inr [catalogued ''r1'', catalogued ''r2'', catalogued ''r3'', catalogued ''r4'',
        catalogued ''r5'']"
  by (simp add: remove_duplicates_def track_id_def enriched_def catalogued_def)

text \<open>
  The scenario of the specification: two input tracks resolve, the recommendations are
  seven tracks of which two are the input tracks, and the result is the other five,
  cut to the limit.
\<close>

lemma example_run:
  "run example_remote stable_argsort [named ''A'', named ''C'', named ''B''] limit =
     Inr (cap [catalogued ''r1'', catalogued ''r2'', catalogued ''r3'', catalogued ''r4'',
               catalogued ''r5''] limit)"
  by (simp add: run_def example_enrich example_average example_seeds example_recommendations
      example_deduplicated)

section \<open>Search\<close>

text \<open>
  C7, as amended. For every track identity \<open>ti\<close> and every response of the search to
  its query, \<open>searchTrack\<close> returns \<^verbatim>\<open>None\<close> exactly when the response has no item. When
  the first item is \<open>item\<close> and its first artist is \<open>a\<close>, it returns a track without
  features whose identity is the item's name, the name \<open>a\<close>, the album's name, the first
  four characters of the release date as year, the item's id and its href: nothing of
  \<open>ti\<close> is left. When the first item has no artist, it raises \<^verbatim>\<open>IndexError\<close>.
\<close>

theorem searchTrack_result:
  "(searchTrack search \<lparr>audio_features = af, track_info = Some ti\<rparr> = Inr None \<longleftrightarrow>
      length (search (genQuery ti)) = 0) \<and>
   (\<forall>item rest a others.
      search (genQuery ti) = item # rest \<and> c_artists item = a # others \<longrightarrow>
      searchTrack search \<lparr>audio_features = af, track_info = Some ti\<rparr> =
        Inr (Some \<lparr>audio_features = None,
                   track_info = Some \<lparr>name = Some (c_name item), artist = Some a,
                     album = Some (c_album item),
                     year = Some (YearStr (take 4 (c_release_date item))),
                     id_info = Some (c_id item), href = Some (c_href item)\<rparr>\<rparr>)) \<and>
   (\<forall>item rest.
      search (genQuery ti) = item # rest \<and> c_artists item = [] \<longrightarrow>
      searchTrack search \<lparr>audio_features = af, track_info = Some ti\<rparr> = Inl IndexError)"
  by (auto simp: searchTrack_def catalog_Track_def TrackInfo_init_def Let_def
      split: list.splits sum.splits)

theorem searchTrack_result_witness:
  "search_api example_remote
     (genQuery \<lparr>name = Some ''A'', artist = None, album = None, year = None, id_info = None,
        href = None\<rparr>) = example_item ''a'' # [] \<and>
   c_artists (example_item ''a'') = ''Band'' # [''Guest''] \<and>
   searchTrack (search_api example_remote)
     \<lparr>audio_features = None,
      track_info = Some \<lparr>name = Some ''A'', artist = None, album = None, year = None,
        id_info = None, href = None\<rparr>\<rparr> =
     Inr (Some \<lparr>audio_features = None,
                track_info = Some \<lparr>name = Some ''Song a'', artist = Some ''Band'',
                  album = Some ''Album'', year = Some (YearStr ''1999''),
                  id_info = Some ''a'', href = Some ''https://api/a''\<rparr>\<rparr>)"
proof -
  let ?ti = "\<lparr>name = Some ''A'', artist = None, album = None, year = None, id_info = None,
        href = None\<rparr>"
  have 1: "search_api example_remote (genQuery ?ti) = example_item ''a'' # []"
    by (simp add: example_query always_safe_def example_remote_def)
  have 2: "c_artists (example_item ''a'') = ''Band'' # [''Guest'']"
    by (simp add: example_item_def)
  have "searchTrack (search_api example_remote) \<lparr>audio_features = None, track_info = Some ?ti\<rparr> =
        Inr (Some \<lparr>audio_features = None,
                   track_info = Some \<lparr>name = Some (c_name (example_item ''a'')),
                     artist = Some ''Band'', album = Some (c_album (example_item ''a'')),
                     year = Some (YearStr (take 4 (c_release_date (example_item ''a'')))),
                     id_info = Some (c_id (example_item ''a'')),
                     href = Some (c_href (example_item ''a''))\<rparr>\<rparr>)"
    using searchTrack_result [of "search_api example_remote" None ?ti] 1 2 by blast
  then show ?thesis
    using 1 2 by (simp add: example_item_def)
qed

theorem searchTrack_no_first_artist:
  "searchTrack (\<lambda>q. [(example_item ''a'')\<lparr>c_artists := []\<rparr>]) (named ''A'') = Inl IndexError"
  by (simp add: searchTrack_def named_def catalog_Track_def example_item_def)

section \<open>Feature lookup\<close>

lemma assign_features_records:
  assumes "length rs = length fs"
  shows "\<exists>h'. assign_features (zip rs (map Some fs)) h = Inr h' \<and>
     (\<forall>a. track_info (h' a) = track_info (h a)) \<and>
     (\<forall>a. a \<notin> set rs \<longrightarrow> h' a = h a) \<and>
     (distinct rs \<longrightarrow>
        (\<forall>i<length fs. audio_features (h' (rs ! i)) = Some (AudioFeatures_init (fs ! i))))"
  using assms
proof (induction rs fs arbitrary: h rule: list_induct2)
  case Nil
  then show ?case by simp
next
  case (Cons r rs f fs)
  define h1 where "h1 = h(r := (h r)\<lparr>audio_features := Some (AudioFeatures_init f)\<rparr>)"
  from Cons.IH [of h1] obtain h' where h':
    "assign_features (zip rs (map Some fs)) h1 = Inr h'"
    "\<forall>a. track_info (h' a) = track_info (h1 a)"
    "\<forall>a. a \<notin> set rs \<longrightarrow> h' a = h1 a"
    "distinct rs \<longrightarrow>
       (\<forall>i<length fs. audio_features (h' (rs ! i)) = Some (AudioFeatures_init (fs ! i)))"
    by blast
  have 1: "assign_features (zip (r # rs) (map Some (f # fs))) h = Inr h'"
    using h'(1) by (simp add: h1_def)
  have 2: "\<forall>a. track_info (h' a) = track_info (h a)"
    using h'(2) by (simp add: h1_def)
  have 3: "\<forall>a. a \<notin> set (r # rs) \<longrightarrow> h' a = h a"
    using h'(3) by (simp add: h1_def)
  have 4: "audio_features (h' ((r # rs) ! i)) = Some (AudioFeatures_init ((f # fs) ! i))"
    if "distinct (r # rs)" "i < length (f # fs)" for i
  proof (cases i)
    case 0
    have "h' r = h1 r"
      using h'(3) that(1) by simp
    then show ?thesis
      by (simp add: 0 h1_def)
  next
    case (Suc j)
    then show ?thesis
      using h'(4) that by simp
  qed
  show ?case
    using 1 2 3 4 by blast
qed

lemma zip_take_right: "zip xs (take (length xs) ys) = zip xs ys"
proof (induction xs arbitrary: ys)
  case Nil
  then show ?case by simp
next
  case (Cons x xs)
  then show ?case by (cases ys) simp_all
qed

lemma zip_take_left: "zip (take (length ys) xs) ys = zip xs ys"
proof (induction ys arbitrary: xs)
  case Nil
  then show ?case by simp
next
  case (Cons y ys)
  then show ?case by (cases xs) simp_all
qed

lemma zip_records:
  assumes "take (length rs) features = map Some fs"
  shows "zip rs features = zip (take (length fs) rs) (map Some fs)"
    and "length (take (length fs) rs) = length fs"
    and "length fs = min (length rs) (length features)"
proof -
  have len: "length fs = min (length rs) (length features)"
    using assms by (metis length_map length_take min.commute)
  show "length fs = min (length rs) (length features)"
    by (rule len)
  show "length (take (length fs) rs) = length fs"
    using len by simp
  have "zip rs features = zip rs (take (length rs) features)"
    by (simp only: zip_take_right)
  also have "\<dots> = zip (take (length (map Some fs)) rs) (map Some fs)"
    unfolding assms by (simp only: zip_take_left)
  finally show "zip rs features = zip (take (length fs) rs) (map Some fs)"
    by simp
qed

lemma join_ids_Some: "join_ids (map Some ids) = Inr (join '','' ids)"
  by (simp add: join_ids_def those_map_Some)

lemma map_res_map_Inr: "map f xs = map Inr ys \<Longrightarrow> map_res f xs = Inr ys"
proof (induction xs arbitrary: ys)
  case Nil
  then show ?case by simp
next
  case (Cons x xs)
  then show ?case by (cases ys) auto
qed

text \<open>
  C9, as amended. Let the tracks of the list (addresses of objects in the store \<open>h\<close>)
  all carry a catalog id, \<open>ids\<close>, and let the entries of the response that \<^verbatim>\<open>zip\<close> pairs
  with a track be records, \<open>fs\<close>, none of them \<^verbatim>\<open>null\<close>; their number is the minimum of
  the two lengths. Then \<open>getAudioFeatures\<close> returns the list it was given, with the same
  length and order, and a store \<open>h'\<close> in which the \<open>track_info\<close> of every object is
  unchanged and every object that is not among the first \<open>length fs\<close> tracks is
  unchanged altogether. When the tracks are distinct objects, track \<open>i\<close> has the features
  of record \<open>i\<close> for every position \<open>i\<close> below the minimum of the two lengths, and the
  tracks from there on are unchanged: with a response shorter than the list, the
  trailing tracks keep the \<open>audio_features\<close> they had (absent, when they had none), and
  the call does not fail. A track without catalog id makes the call raise \<^verbatim>\<open>TypeError\<close>
  before any request, as the evaluation after the example shows.
\<close>

theorem getAudioFeatures_frame:
  assumes ids: "map (\<lambda>r. track_id (h r)) tracks = map Inr (map Some ids)"
    and records: "take (length tracks) (request (join '','' ids)) = map Some fs"
  shows "\<exists>h'. getAudioFeatures request tracks h = Inr (tracks, h') \<and>
     length fs = min (length tracks) (length (request (join '','' ids))) \<and>
     (\<forall>a. track_info (h' a) = track_info (h a)) \<and>
     (\<forall>a. a \<notin> set (take (length fs) tracks) \<longrightarrow> h' a = h a) \<and>
     (distinct tracks \<longrightarrow>
        (\<forall>i<length tracks.
           if i < length fs
           then audio_features (h' (tracks ! i)) = Some (AudioFeatures_init (fs ! i))
           else h' (tracks ! i) = h (tracks ! i)))"
proof -
  let ?rs = "take (length fs) tracks"
  note z = zip_records [OF records]
  from assign_features_records [OF z(2), of h] obtain h' where h':
    "assign_features (zip ?rs (map Some fs)) h = Inr h'"
    "\<forall>a. track_info (h' a) = track_info (h a)"
    "\<forall>a. a \<notin> set ?rs \<longrightarrow> h' a = h a"
    "distinct ?rs \<longrightarrow>
       (\<forall>i<length fs. audio_features (h' (?rs ! i)) = Some (AudioFeatures_init (fs ! i)))"
    by blast
  have 1: "getAudioFeatures request tracks h = Inr (tracks, h')"
    using h'(1) z(1)
    by (simp add: getAudioFeatures_def map_res_map_Inr [OF ids] join_ids_Some)
  have 5: "if i < length fs
           then audio_features (h' (tracks ! i)) = Some (AudioFeatures_init (fs ! i))
           else h' (tracks ! i) = h (tracks ! i)"
    if d: "distinct tracks" and i: "i < length tracks" for i
  proof (cases "i < length fs")
    case True
    then show ?thesis
      using h'(4) d by simp
  next
    case False
    have "tracks ! i \<notin> set ?rs"
    proof
      assume "tracks ! i \<in> set ?rs"
      then obtain j where j: "j < length ?rs" "?rs ! j = tracks ! i"
        by (auto simp: in_set_conv_nth)
      then have "tracks ! j = tracks ! i" "j < length tracks" "j < length fs"
        by simp_all
      with d i have "j = i"
        by (simp add: nth_eq_iff_index_eq)
      with False \<open>j < length fs\<close> show False
        by simp
    qed
    then show ?thesis
      using False h'(3) by simp
  qed
  show ?thesis
    using 1 z(3) h'(2,3) 5 by blast
qed

theorem getAudioFeatures_frame_witness:
  "map (\<lambda>r. track_id (example_store r)) [0, 1] =
     map Inr (map Some [''a'', ''b'']) \<and>
   take (length [0, 1 :: nat]) (short_response
     (join '','' [''a'', ''b''])) = map Some [example_feature ''a'' 0] \<and>
   distinct [0, 1 :: nat] \<and>
   (\<exists>h'. getAudioFeatures short_response
            [0, 1] (example_store) = Inr ([0, 1], h') \<and>
         audio_features (h' 0) = Some (AudioFeatures_init (example_feature ''a'' 0)) \<and>
         track_info (h' 0) = track_info (catalogued ''a'') \<and>
         h' 1 = catalogued ''b'')"
proof -
  let ?h = "example_store"
  let ?request = "short_response"
  have 1: "map (\<lambda>r. track_id (?h r)) [0, 1] = map Inr (map Some [''a'', ''b''])"
    by (simp add: example_store_def allocate_def track_id_def catalogued_def)
  have 2: "take (length [0, 1 :: nat]) (?request (join '','' [''a'', ''b''])) =
      map Some [example_feature ''a'' 0]"
    by (simp add: short_response_def)
  have 3: "distinct [0, 1 :: nat]"
    by simp
  from getAudioFeatures_frame [where h = example_store and request = short_response, OF 1 2] obtain h' where h':
    "getAudioFeatures ?request [0, 1] ?h = Inr ([0, 1], h')"
    "\<forall>a. track_info (h' a) = track_info (?h a)"
    "distinct [0, 1 :: nat] \<longrightarrow>
        (\<forall>i<length [0, 1 :: nat].
           if i < length [example_feature ''a'' 0]
           then audio_features (h' ([0, 1] ! i)) = Some (AudioFeatures_init ([example_feature ''a'' 0] ! i))
           else h' ([0, 1] ! i) = ?h ([0, 1] ! i))"
    by blast
  from h'(3) 3 have d: "\<forall>i<length [0, 1 :: nat].
           if i < length [example_feature ''a'' 0]
           then audio_features (h' ([0, 1] ! i)) = Some (AudioFeatures_init ([example_feature ''a'' 0] ! i))
           else h' ([0, 1] ! i) = ?h ([0, 1] ! i)"
    by blast
  from d [rule_format, of 0] d [rule_format, of 1]
  have "audio_features (h' 0) = Some (AudioFeatures_init (example_feature ''a'' 0))"
    "h' 1 = catalogued ''b''"
    by (simp_all add: example_store_def allocate_def)
  moreover from h'(2) have "track_info (h' 0) = track_info (catalogued ''a'')"
    by (simp add: example_store_def allocate_def)
  ultimately show ?thesis
    using 1 2 3 h'(1) by blast
qed

theorem getAudioFeatures_without_id:
  "getAudioFeatures (features_api example_remote) [0] (\<lambda>a. named ''A'') = Inl TypeError"
  by (simp add: getAudioFeatures_def track_id_def named_def TrackInfo_init_def join_ids_def)

section \<open>The result of run\<close>

lemma filter_res_Inr:
  "filter_res p xs = Inr ys \<Longrightarrow> set ys \<subseteq> set xs \<and> (\<forall>y\<in>set ys. p y = Inr True)"
proof (induction xs arbitrary: ys)
  case Nil
  then show ?case by simp
next
  case (Cons x xs)
  then show ?case
    by (fastforce split: sum.splits if_splits)
qed

lemma map_res_elem:
  "map_res f xs = Inr ys \<Longrightarrow> x \<in> set xs \<Longrightarrow> \<exists>y\<in>set ys. f x = Inr y"
proof (induction xs arbitrary: ys)
  case Nil
  then show ?case by simp
next
  case (Cons z zs)
  then show ?case
    by (fastforce split: sum.splits)
qed

text \<open>
  What the comprehension keeps: recommended tracks, each with an id that no track of
  \<open>tracks\<close> has.
\<close>

lemma remove_duplicates_ids:
  assumes "remove_duplicates recs tracks = Inr d" "r \<in> set d"
  shows "r \<in> set recs \<and> (\<exists>i. track_id r = Inr i \<and> (\<forall>t\<in>set tracks. track_id t \<noteq> Inr i))"
proof -
  let ?p = "\<lambda>track. case track_id track of
                           Inl e \<Rightarrow> Inl e
                         | Inr i \<Rightarrow>
                             (case map_res track_id tracks of
                                Inl e \<Rightarrow> Inl e
                              | Inr ids \<Rightarrow> Inr (i \<notin> set ids))"
  from assms have r: "r \<in> set recs" "?p r = Inr True"
    using filter_res_Inr [of ?p recs d] by (auto simp: remove_duplicates_def)
  then obtain i ids where i: "track_id r = Inr i" "map_res track_id tracks = Inr ids" "i \<notin> set ids"
    by (auto split: sum.splits)
  have "track_id t \<noteq> Inr i" if "t \<in> set tracks" for t
    using map_res_elem [OF i(2) that] i(3) by auto
  with r(1) i(1) show ?thesis
    by blast
qed

lemma set_cap: "set (cap xs limit) \<subseteq> set xs"
  by (auto simp: cap_def slice_to_take dest: in_set_takeD)

lemma cap_nonnegative:
  "0 \<le> limit \<Longrightarrow>
   cap recs limit = (if int (length recs) \<le> limit then recs else take (nat limit) recs)"
  by (simp add: cap_def slice_to_def)

lemma length_cap: "0 \<le> limit \<Longrightarrow> int (length (cap xs limit)) \<le> limit"
  by (auto simp: cap_nonnegative)

text \<open>With a negative limit the list always exceeds the limit, and the slice drops its end.\<close>

lemma cap_negative:
  "limit < 0 \<Longrightarrow> cap recs limit = take (length recs - nat (- limit)) recs"
  by (simp add: cap_def slice_to_def)

text \<open>
  C4. When \<open>run\<close> returns the list \<open>out\<close>, then the enriched input exists (the list
  \<open>tracks\<close> of the tracks found by the search, with their features), and every track of
  \<open>out\<close> has a catalog id that is the id of no track of \<open>tracks\<close>.
\<close>

theorem run_deduplicated:
  assumes "run api argsort inputs limit = Inr out"
  shows "\<exists>tracks. enrich api inputs = Inr tracks \<and>
     (\<forall>r\<in>set out. \<exists>i. track_id r = Inr i \<and> (\<forall>t\<in>set tracks. track_id t \<noteq> Inr i))"
proof -
  from assms obtain tracks recs d where d: "enrich api inputs = Inr tracks"
    "remove_duplicates recs tracks = Inr d" "out = cap d limit"
    by (auto simp: run_def split: sum.splits)
  have "\<exists>i. track_id r = Inr i \<and> (\<forall>t\<in>set tracks. track_id t \<noteq> Inr i)" if "r \<in> set out" for r
  proof -
    from that have "r \<in> set d"
      using set_cap [of d limit] by (auto simp: d(3))
    then show ?thesis
      using remove_duplicates_ids [OF d(2)] by blast
  qed
  with d(1) show ?thesis
    by blast
qed

theorem run_deduplicated_witness:
  "run example_remote stable_argsort [named ''A'', named ''C'', named ''B''] 5 =
     Inr [catalogued ''r1'', catalogued ''r2'', catalogued ''r3'', catalogued ''r4'',
          catalogued ''r5''] \<and>
   enrich example_remote [named ''A'', named ''C'', named ''B''] =
     Inr [enriched ''a'' 0, enriched ''b'' 1] \<and>
   track_id (catalogued ''r1'') = Inr (Some ''r1'') \<and>
   track_id (enriched ''a'' 0) \<noteq> Inr (Some ''r1'') \<and>
   track_id (enriched ''b'' 1) \<noteq> Inr (Some ''r1'')"
proof -
  have 1: "run example_remote stable_argsort [named ''A'', named ''C'', named ''B''] 5 =
     Inr [catalogued ''r1'', catalogued ''r2'', catalogued ''r3'', catalogued ''r4'',
          catalogued ''r5'']"
    by (simp add: example_run cap_def)
  have 2: "enrich example_remote [named ''A'', named ''C'', named ''B''] =
     Inr [enriched ''a'' 0, enriched ''b'' 1]"
    by (rule example_enrich)
  have 3: "track_id (catalogued ''r1'') = Inr (Some ''r1'')"
    by (simp add: track_id_def catalogued_def)
  from run_deduplicated [OF 1] 2
  have "\<exists>i. track_id (catalogued ''r1'') = Inr i \<and>
      (\<forall>t\<in>set [enriched ''a'' 0, enriched ''b'' 1]. track_id t \<noteq> Inr i)"
    by simp
  with 3 have "track_id (enriched ''a'' 0) \<noteq> Inr (Some ''r1'')"
    "track_id (enriched ''b'' 1) \<noteq> Inr (Some ''r1'')"
    by auto
  with 1 2 3 show ?thesis
    by blast
qed

text \<open>
  C5, as amended. For every limit that is not negative, the list that \<open>run\<close> returns is
  no longer than the limit: the deduplicated list is returned as it is when it is no
  longer than the limit, and cut to its first \<open>limit\<close> tracks otherwise. For a negative
  limit the deduplicated list loses its last \<open>-limit\<close> tracks (lemma \<open>cap_negative\<close>),
  and what is left is longer than the limit, as the evaluation after the example shows.
\<close>

theorem run_capped:
  assumes "0 \<le> limit"
  shows "(run api argsort inputs limit = Inr out \<longrightarrow> int (length out) \<le> limit) \<and>
     int (length (cap recs limit)) \<le> limit \<and>
     cap recs limit = (if int (length recs) \<le> limit then recs else take (nat limit) recs)"
proof -
  note c = length_cap [OF assms]
  have "int (length out) \<le> limit" if "run api argsort inputs limit = Inr out"
  proof -
    from that obtain d where "out = cap d limit"
      by (auto simp: run_def split: sum.splits)
    then show ?thesis
      using c by simp
  qed
  then show ?thesis
    using c [of recs] cap_nonnegative [OF assms, of recs] by blast
qed

theorem run_capped_witness:
  "(0 :: int) \<le> 2 \<and>
   run example_remote stable_argsort [named ''A'', named ''C'', named ''B''] 2 =
     Inr [catalogued ''r1'', catalogued ''r2''] \<and>
   int (length [catalogued ''r1'', catalogued ''r2'']) \<le> 2"
proof -
  have 0: "(0 :: int) \<le> 2"
    by simp
  have 1: "run example_remote stable_argsort [named ''A'', named ''C'', named ''B''] 2 =
     Inr [catalogued ''r1'', catalogued ''r2'']"
    by (simp add: example_run cap_def slice_to_def)
  from run_capped [OF 0, of example_remote stable_argsort
      "[named ''A'', named ''C'', named ''B'']" "[catalogued ''r1'', catalogued ''r2'']"] 1
  have "int (length [catalogued ''r1'', catalogued ''r2'']) \<le> 2"
    by blast
  with 0 1 show ?thesis
    by blast
qed

theorem run_negative_limit:
  "run example_remote stable_argsort [named ''A'', named ''C'', named ''B''] (- 1) =
     Inr [catalogued ''r1'', catalogued ''r2'', catalogued ''r3'', catalogued ''r4''] \<and>
   \<not> int (length [catalogued ''r1'', catalogued ''r2'', catalogued ''r3'', catalogued ''r4''])
       \<le> - 1"
  by (simp add: example_run cap_def slice_to_def)

end
